theory Spec2Isabelle
  imports Main "HOL-Library.Finite_Map" "HOL-Library.Sublist"
begin

section \<open>Python values and dictionaries\<close>

text \<open>
  The objects that \<^verbatim>\<open>yaml.safe_load\<close> hands to \<^verbatim>\<open>config.py\<close>: \<^verbatim>\<open>None\<close>, booleans,
  integers, strings, lists and dictionaries. A key of a dictionary is a string, an
  integer or \<^verbatim>\<open>None\<close>; a boolean key is the integer it equals, since Python's
  dictionaries do not tell \<^verbatim>\<open>True\<close> from 1. Floats, timestamps and binary scalars are
  outside the model. A Python \<^verbatim>\<open>dict\<close> is a finite map; the order of its keys is not
  modelled. Strings are lists of characters with code points below 256; a byte string
  is a list of such characters too.
\<close>

datatype key = KStr string | KInt int | KNull

datatype yaml =
    YNull
  | YBool bool
  | YInt int
  | YStr string
  | YSeq "yaml list"
  | YMap "(key, yaml) fmap"

type_synonym dict = "(key, yaml) fmap"

text \<open>Python truthiness, as used by \<^verbatim>\<open>x or {}\<close>, \<^verbatim>\<open>if x:\<close> and \<^verbatim>\<open>bool(x)\<close>.\<close>

fun truthy :: "yaml \<Rightarrow> bool" where
  "truthy YNull = False"
| "truthy (YBool b) = b"
| "truthy (YInt i) = (i \<noteq> 0)"
| "truthy (YStr s) = (s \<noteq> [])"
| "truthy (YSeq xs) = (xs \<noteq> [])"
| "truthy (YMap m) = (m \<noteq> fmempty)"

fun is_str_key :: "key \<Rightarrow> bool" where
  "is_str_key (KStr s) = True"
| "is_str_key k = False"

definition str_keys :: "dict \<Rightarrow> bool" where
  "str_keys d = fBall (fmdom d) is_str_key"

section \<open>Exceptions\<close>

text \<open>
  Every exception the modelled code can raise or let through. \<^verbatim>\<open>ConfigError\<close> is the
  class declared in \<^verbatim>\<open>config.py\<close> (a subclass of \<^verbatim>\<open>RuntimeError\<close>); the argument of
  \<open>ValidationError\<close> lists the fields pydantic rejected; \<open>YAMLError\<close> is PyYAML's; the
  remaining constructors are Python built-ins, the last five being subclasses of
  \<^verbatim>\<open>OSError\<close>.
\<close>

datatype exn =
    ConfigError string
  | ValidationError "string list"
  | YAMLError
  | TypeError
  | RuntimeError string
  | UnicodeDecodeError
  | UnicodeEncodeError
  | FileNotFoundError
  | PermissionError
  | IsADirectoryError
  | NotADirectoryError
  | FileExistsError

fun is_ConfigError :: "exn \<Rightarrow> bool" where
  "is_ConfigError (ConfigError m) = True"
| "is_ConfigError e = False"


section \<open>Built-in conversions of text\<close>

text \<open>
  \<^verbatim>\<open>int(s)\<close> on a string, base 10: surrounding whitespace is dropped, one sign is
  allowed, then decimal digits with single underscores between digits. \<open>None\<close> stands
  for \<^verbatim>\<open>ValueError\<close>. The interpreter's limit on the number of digits is not modelled.
\<close>

definition py_isspace :: "char \<Rightarrow> bool" where
  "py_isspace c =
     (c \<in> set [CHR 0x09, CHR 0x0A, CHR 0x0B, CHR 0x0C, CHR 0x0D, CHR 0x20, CHR 0x85, CHR 0xA0])"

definition py_strip :: "string \<Rightarrow> string" where
  "py_strip s = rev (dropWhile py_isspace (rev (dropWhile py_isspace s)))"

definition digit_val :: "char \<Rightarrow> int option" where
  "digit_val c = map_of (zip ''0123456789'' [0, 1, 2, 3, 4, 5, 6, 7, 8, 9]) c"

fun py_digits_from :: "int \<Rightarrow> string \<Rightarrow> int option" where
  "py_digits_from acc [] = Some acc"
| "py_digits_from acc (c # cs) =
     (case digit_val c of
        Some d \<Rightarrow> py_digits_from (10 * acc + d) cs
      | None \<Rightarrow>
          if c = CHR ''_'' then
            (case cs of
               [] \<Rightarrow> None
             | c' # cs' \<Rightarrow>
                 (case digit_val c' of
                    Some d \<Rightarrow> py_digits_from (10 * acc + d) cs'
                  | None \<Rightarrow> None))
          else None)"

definition py_digits :: "string \<Rightarrow> int option" where
  "py_digits s =
     (case s of
        [] \<Rightarrow> None
      | c # cs \<Rightarrow> (case digit_val c of Some d \<Rightarrow> py_digits_from d cs | None \<Rightarrow> None))"

definition py_int :: "string \<Rightarrow> int option" where
  "py_int s =
     (case py_strip s of
        [] \<Rightarrow> None
      | c # cs \<Rightarrow>
          if c = CHR ''-'' then map_option uminus (py_digits cs)
          else if c = CHR ''+'' then py_digits cs
          else py_digits (c # cs))"

text \<open>\<^verbatim>\<open>str(n)\<close> on an integer: the decimal digits, with a minus sign when negative.\<close>

function py_str_nat :: "nat \<Rightarrow> string" where
  "py_str_nat n =
     (if n < 10 then [''0123456789'' ! n]
      else py_str_nat (n div 10) @ [''0123456789'' ! (n mod 10)])"
  by pat_completeness auto
termination
  by (relation "measure id") auto

declare py_str_nat.simps [simp del]

definition py_str :: "int \<Rightarrow> string" where
  "py_str i = (if i < 0 then CHR ''-'' # py_str_nat (nat (- i)) else py_str_nat (nat i))"

text \<open>
  Universal newlines, as text mode applies them to what is read from a file or captured
  from a child: \<^verbatim>\<open>data.replace("\r\n", "\n").replace("\r", "\n")\<close>.
\<close>

fun crlf_to_lf :: "string \<Rightarrow> string" where
  "crlf_to_lf [] = []"
| "crlf_to_lf [c] = [c]"
| "crlf_to_lf (c # d # cs) =
     (if c = CHR 0x0D \<and> d = CHR 0x0A then CHR 0x0A # crlf_to_lf cs
      else c # crlf_to_lf (d # cs))"

definition cr_to_lf :: "string \<Rightarrow> string" where
  "cr_to_lf s = map (\<lambda>c. if c = CHR 0x0D then CHR 0x0A else c) s"

definition universal_newlines :: "string \<Rightarrow> string" where
  "universal_newlines s = cr_to_lf (crlf_to_lf s)"

section \<open>Reading the environment (\<^verbatim>\<open>ConfigManager._read_env\<close>)\<close>

text \<open>\<^verbatim>\<open>os.environ\<close>: a finite map from variable names to their values.\<close>

type_synonym environ = "(string, string) fmap"

text \<open>
  One \<^verbatim>\<open>os.getenv\<close> followed by \<^verbatim>\<open>if value:\<close> \<^verbatim>\<open>env_map[key] = value\<close>: an unset
  variable and an empty one both leave the mapping as it is.
\<close>

definition env_str :: "environ \<Rightarrow> string \<Rightarrow> string \<Rightarrow> dict \<Rightarrow> dict" where
  "env_str env var key env_map =
     (case fmlookup env var of
        None \<Rightarrow> env_map
      | Some s \<Rightarrow> if s \<noteq> [] then fmupd (KStr key) (YStr s) env_map else env_map)"

definition env_max_tokens :: "environ \<Rightarrow> dict \<Rightarrow> exn + dict" where
  "env_max_tokens env env_map =
     (case fmlookup env ''OPENENCODE_MAX_TOKENS'' of
        None \<Rightarrow> Inr env_map
      | Some s \<Rightarrow>
          if s \<noteq> [] then
            (case py_int s of
               Some i \<Rightarrow> Inr (fmupd (KStr ''max_tokens'') (YInt i) env_map)
             | None \<Rightarrow> Inl (ConfigError ''OPENENCODE_MAX_TOKENS must be an integer''))
          else Inr env_map)"

definition read_env :: "environ \<Rightarrow> exn + dict" where
  "read_env env =
     (case env_max_tokens env
             (env_str env ''OPENENCODE_MODEL'' ''model''
               (env_str env ''OPENENCODE_API_KEY'' ''api_key'' fmempty)) of
        Inl e \<Rightarrow> Inl e
      | Inr env_map \<Rightarrow> Inr (env_str env ''OPENENCODE_WORKSPACE_DIR'' ''workspace_dir'' env_map))"

section \<open>The host: libraries and operating system\<close>

text \<open>
  What the code takes from its libraries and the operating system, as parameters:
  \<^item> \<open>safe_load\<close>: \<^verbatim>\<open>yaml.safe_load\<close> on a text, with the exception it raises, if any;
  \<^item> \<open>safe_dump\<close>: \<^verbatim>\<open>yaml.safe_dump(data, sort_keys=False)\<close>;
  \<^item> \<open>locale_decode\<close> and \<open>locale_encode\<close>: the locale's encoding between bytes and
    text, \<open>None\<close> for \<^verbatim>\<open>UnicodeDecodeError\<close> and \<^verbatim>\<open>UnicodeEncodeError\<close>;
  \<^item> \<open>denied\<close>: the paths which the operating system refuses to read, create or write
    (\<^verbatim>\<open>PermissionError\<close>, which stands for every refusal of the device as well);
  \<^item> \<open>expanduser\<close>: the text of \<^verbatim>\<open>Path(s).expanduser()\<close>, \<open>None\<close> when the home
    directory cannot be determined (\<^verbatim>\<open>RuntimeError\<close>);
  \<^item> \<open>user_config_path\<close>: \<^verbatim>\<open>platformdirs.user_config_path(app_name)\<close>;
  \<^item> \<open>getcwd\<close>: \<^verbatim>\<open>Path.cwd()\<close>;
  \<^item> \<open>lax_int\<close>: pydantic's coercion to \<^verbatim>\<open>int\<close> of an input that is not an integer;
  \<^item> \<open>launch\<close>: what the operating system does when asked to run a command with an
    environment and a working directory: an exception, or a child that ran to
    completion, with its exit code and the bytes it wrote to its two output streams.

  Paths are lists of components below the root; \<open>p @ [name]\<close> is \<^verbatim>\<open>p / name\<close>.
  The file system maps a path to a regular file with its bytes or to a directory; the
  root is always a directory and every directory can be searched. Links are not
  modelled.
\<close>

type_synonym path = "string list"

datatype node = File string | Dir

type_synonym fs = "(path, node) fmap"

record child =
  exit_code :: int
  out :: string
  err :: string

record host =
  safe_load :: "string \<Rightarrow> exn + yaml"
  safe_dump :: "yaml \<Rightarrow> string"
  locale_decode :: "string \<Rightarrow> string option"
  locale_encode :: "string \<Rightarrow> string option"
  denied :: "path \<Rightarrow> bool"
  expanduser :: "string \<Rightarrow> string option"
  user_config_path :: "string \<Rightarrow> path"
  getcwd :: path
  lax_int :: "yaml \<Rightarrow> int option"
  launch :: "string list \<Rightarrow> environ \<Rightarrow> path option \<Rightarrow> exn + child"

definition path_str :: "path \<Rightarrow> string" where
  "path_str p = (if p = [] then ''/'' else concat (map (\<lambda>c. CHR ''/'' # c) p))"

definition node_at :: "fs \<Rightarrow> path \<Rightarrow> node option" where
  "node_at files p = (if p = [] then Some Dir else fmlookup files p)"

definition path_exists :: "fs \<Rightarrow> path \<Rightarrow> bool" where
  "path_exists files p = (node_at files p \<noteq> None)"



text \<open>
  Text mode on bytes that were read or captured: decoding, then universal newlines.
\<close>

definition text_mode :: "host \<Rightarrow> string \<Rightarrow> exn + string" where
  "text_mode H b =
     (case locale_decode H b of
        None \<Rightarrow> Inl UnicodeDecodeError
      | Some t \<Rightarrow> Inr (universal_newlines t))"

text \<open>\<^verbatim>\<open>Path.read_text\<close> on a path that exists.\<close>

definition read_text :: "host \<Rightarrow> path \<Rightarrow> node \<Rightarrow> exn + string" where
  "read_text H p n =
     (case n of
        Dir \<Rightarrow> Inl IsADirectoryError
      | File b \<Rightarrow> if denied H p then Inl PermissionError else text_mode H b)"






section \<open>The configuration model (\<^verbatim>\<open>OpencodeConfig\<close>)\<close>

record opencode_config =
  api_key :: "string option"
  model :: string
  max_tokens :: int
  workspace_dir :: string

text \<open>
  \<^verbatim>\<open>OpencodeConfig()\<close>: the declared defaults. Pydantic does not validate a default, so
  the validator of \<^verbatim>\<open>workspace_dir\<close> does not run on it.
\<close>

definition OpencodeConfig_default :: opencode_config where
  "OpencodeConfig_default =
     \<lparr>api_key = None, model = ''gpt-4'', max_tokens = 4096,
      workspace_dir = ''~/opencode-workspace''\<rparr>"

text \<open>
  Field validation. \<open>Inl\<close> carries the name of the rejected field, which pydantic
  collects into one \<^verbatim>\<open>ValidationError\<close>; a missing key takes the default.
\<close>

definition validate_api_key :: "yaml option \<Rightarrow> string + string option" where
  "validate_api_key v =
     (case v of
        None \<Rightarrow> Inr (api_key OpencodeConfig_default)
      | Some YNull \<Rightarrow> Inr None
      | Some (YStr s) \<Rightarrow> Inr (Some s)
      | Some other \<Rightarrow> Inl ''api_key'')"

definition validate_model :: "yaml option \<Rightarrow> string + string" where
  "validate_model v =
     (case v of
        None \<Rightarrow> Inr (model OpencodeConfig_default)
      | Some (YStr s) \<Rightarrow> Inr s
      | Some other \<Rightarrow> Inl ''model'')"

definition as_int :: "host \<Rightarrow> yaml \<Rightarrow> int option" where
  "as_int H v = (case v of YInt i \<Rightarrow> Some i | other \<Rightarrow> lax_int H other)"

definition validate_max_tokens :: "host \<Rightarrow> yaml option \<Rightarrow> string + int" where
  "validate_max_tokens H v =
     (case v of
        None \<Rightarrow> Inr (max_tokens OpencodeConfig_default)
      | Some x \<Rightarrow>
          (case as_int H x of
             None \<Rightarrow> Inl ''max_tokens''
           | Some i \<Rightarrow> if 1 \<le> i \<and> i \<le> 32000 then Inr i else Inl ''max_tokens''))"

text \<open>
  \<^verbatim>\<open>expand_workspace_dir\<close>, a validator that runs before the field's own validation:
  \<^verbatim>\<open>Path(value).expanduser()\<close>. \<^verbatim>\<open>Path\<close> raises \<^verbatim>\<open>TypeError\<close> on anything but text, and
  pydantic lets that exception through.
\<close>

definition expand_workspace_dir :: "host \<Rightarrow> yaml \<Rightarrow> exn + string" where
  "expand_workspace_dir H v =
     (case v of
        YStr s \<Rightarrow>
          (case expanduser H s of
             Some p \<Rightarrow> Inr p
           | None \<Rightarrow> Inl (RuntimeError ''Could not determine home directory.''))
      | other \<Rightarrow> Inl TypeError)"

definition validate_workspace_dir :: "host \<Rightarrow> yaml option \<Rightarrow> exn + string" where
  "validate_workspace_dir H v =
     (case v of
        None \<Rightarrow> Inr (workspace_dir OpencodeConfig_default)
      | Some x \<Rightarrow> expand_workspace_dir H x)"

definition field_errors :: "(string + 'a) \<Rightarrow> string list" where
  "field_errors r = (case r of Inl name \<Rightarrow> [name] | Inr x \<Rightarrow> [])"

text \<open>
  \<^verbatim>\<open>OpencodeConfig.model_validate(merged)\<close> with \<^verbatim>\<open>extra="ignore"\<close>: the four fields in
  declaration order; keys that are no field are not looked at.
\<close>

definition model_validate :: "host \<Rightarrow> dict \<Rightarrow> exn + opencode_config" where
  "model_validate H d =
     (let a = validate_api_key (fmlookup d (KStr ''api_key''));
          m = validate_model (fmlookup d (KStr ''model''));
          t = validate_max_tokens H (fmlookup d (KStr ''max_tokens''))
      in case validate_workspace_dir H (fmlookup d (KStr ''workspace_dir'')) of
           Inl e \<Rightarrow> Inl e
         | Inr w \<Rightarrow>
             (case (a, m, t) of
                (Inr a', Inr m', Inr t') \<Rightarrow>
                  Inr \<lparr>api_key = a', model = m', max_tokens = t', workspace_dir = w\<rparr>
              | other \<Rightarrow>
                  Inl (ValidationError (field_errors a @ field_errors m @ field_errors t))))"


section \<open>Loading and writing configuration (\<^verbatim>\<open>ConfigManager\<close>)\<close>

record config_paths =
  user_config_dir :: path
  user_config_file :: path
  project_config_file :: path

record config_source =
  path :: path
  exists :: bool
  loaded :: bool
  data :: dict

record config_load_result =
  config :: opencode_config
  sources :: "config_source list"

text \<open>
  \<^verbatim>\<open>ConfigSource(path=..., exists=..., loaded=..., data=...)\<close>: pydantic validates the
  arguments, and \<^verbatim>\<open>data: dict[str, Any]\<close> refuses a key that is no string.
\<close>

definition ConfigSource :: "path \<Rightarrow> bool \<Rightarrow> bool \<Rightarrow> dict \<Rightarrow> exn + config_source" where
  "ConfigSource p ex ld d =
     (if str_keys d then Inr \<lparr>path = p, exists = ex, loaded = ld, data = d\<rparr>
      else Inl (ValidationError [''data'']))"

text \<open>The manager's two attributes; \<open>project_file\<close> is a single path component.\<close>

record config_manager =
  app_name :: string
  project_file :: string

definition ConfigManager :: config_manager where
  "ConfigManager = \<lparr>app_name = ''opencode-wrapper'', project_file = ''.opencode.yaml''\<rparr>"

definition resolve_paths :: "config_manager \<Rightarrow> host \<Rightarrow> path option \<Rightarrow> config_paths" where
  "resolve_paths M H cwd =
     (let root = user_config_path H (app_name M);
          project_root = (case cwd of Some d \<Rightarrow> d | None \<Rightarrow> getcwd H)
      in \<lparr>user_config_dir = root,
          user_config_file = root @ [''config.yaml''],
          project_config_file = project_root @ [project_file M]\<rparr>)"

text \<open>
  \<^verbatim>\<open>_read_yaml\<close>: a missing file is the empty mapping; a falsy document is replaced by
  the empty mapping (\<^verbatim>\<open>or {}\<close>); anything that then is no mapping is refused. Only
  \<^verbatim>\<open>yaml.YAMLError\<close> is caught around the read and the load.
\<close>

definition read_yaml :: "host \<Rightarrow> fs \<Rightarrow> path \<Rightarrow> exn + dict" where
  "read_yaml H files p =
     (case node_at files p of
        None \<Rightarrow> Inr fmempty
      | Some n \<Rightarrow>
          (case read_text H p n of
             Inl e \<Rightarrow> Inl e
           | Inr t \<Rightarrow>
               (case safe_load H t of
                  Inl e \<Rightarrow>
                    if e = YAMLError then Inl (ConfigError (''Invalid YAML in '' @ path_str p))
                    else Inl e
                | Inr v \<Rightarrow>
                    (case (if truthy v then v else YMap fmempty) of
                       YMap m \<Rightarrow> Inr m
                     | other \<Rightarrow>
                         Inl (ConfigError
                               (''Config file '' @ path_str p @ '' must contain a mapping''))))))"


text \<open>\<^verbatim>\<open>{**user_data, **project_data, **env_data}\<close>: later dictionaries overwrite earlier ones.\<close>

definition merged :: "dict \<Rightarrow> dict \<Rightarrow> dict \<Rightarrow> dict" where
  "merged user_data project_data env_data = fmadd (fmadd user_data project_data) env_data"

text \<open>
  \<^verbatim>\<open>load\<close>: each file is read and recorded as a source before the next step; then the
  environment is read, the three mappings are merged and the result is validated.
\<close>

definition load ::
  "config_manager \<Rightarrow> host \<Rightarrow> fs \<Rightarrow> environ \<Rightarrow> path option \<Rightarrow> exn + config_load_result" where
  "load M H files env cwd =
     (let paths = resolve_paths M H cwd in
      case read_yaml H files (user_config_file paths) of
        Inl e \<Rightarrow> Inl e
      | Inr user_data \<Rightarrow>
      (case ConfigSource (user_config_file paths)
              (path_exists files (user_config_file paths)) (user_data \<noteq> fmempty) user_data of
         Inl e \<Rightarrow> Inl e
       | Inr user_source \<Rightarrow>
       (case read_yaml H files (project_config_file paths) of
          Inl e \<Rightarrow> Inl e
        | Inr project_data \<Rightarrow>
        (case ConfigSource (project_config_file paths)
                (path_exists files (project_config_file paths)) (project_data \<noteq> fmempty)
                project_data of
           Inl e \<Rightarrow> Inl e
         | Inr project_source \<Rightarrow>
         (case read_env env of
            Inl e \<Rightarrow> Inl e
          | Inr env_data \<Rightarrow>
          (case model_validate H (merged user_data project_data env_data) of
             Inl e \<Rightarrow> Inl e
           | Inr c \<Rightarrow> Inr \<lparr>config = c, sources = [user_source, project_source]\<rparr>))))))"


section \<open>Running the command (\<^verbatim>\<open>OpencodeRunner\<close>)\<close>

record run_result =
  returncode :: int
  stdout :: "string option"
  stderr :: "string option"

record command_spec =
  executable :: string

definition CommandSpec :: command_spec where
  "CommandSpec = \<lparr>executable = ''opencode''\<rparr>"

text \<open>
  \<^verbatim>\<open>subprocess.run(command, env=env, cwd=cwd, check=False)\<close>, with or without
  \<^verbatim>\<open>text=True, capture_output=True\<close>: the exception of the launch, or the completed
  process. Without capture the output fields are absent. With capture the bytes of
  standard output, then those of standard error, go through text mode, and bytes that
  do not decode raise \<^verbatim>\<open>UnicodeDecodeError\<close>. A child that never exits is not modelled.
\<close>

record completed_process =
  cp_returncode :: int
  cp_stdout :: "string option"
  cp_stderr :: "string option"

definition subprocess_run ::
  "host \<Rightarrow> string list \<Rightarrow> environ \<Rightarrow> path option \<Rightarrow> bool \<Rightarrow> exn + completed_process" where
  "subprocess_run H command env cwd capture_output =
     (case launch H command env cwd of
        Inl e \<Rightarrow> Inl e
      | Inr ch \<Rightarrow>
          if capture_output then
            (case text_mode H (out ch) of
               Inl e \<Rightarrow> Inl e
             | Inr out_text \<Rightarrow>
                 (case text_mode H (err ch) of
                    Inl e \<Rightarrow> Inl e
                  | Inr err_text \<Rightarrow>
                      Inr \<lparr>cp_returncode = exit_code ch, cp_stdout = Some out_text,
                           cp_stderr = Some err_text\<rparr>))
          else Inr \<lparr>cp_returncode = exit_code ch, cp_stdout = None, cp_stderr = None\<rparr>)"

definition build_env :: "environ \<Rightarrow> opencode_config \<Rightarrow> environ" where
  "build_env environ c =
     (let env = environ;
          env = (case api_key c of
                   None \<Rightarrow> env
                 | Some k \<Rightarrow> if k \<noteq> [] then fmupd ''OPENENCODE_API_KEY'' k env else env);
          env = fmupd ''OPENENCODE_MODEL'' (model c) env;
          env = fmupd ''OPENENCODE_MAX_TOKENS'' (py_str (max_tokens c)) env;
          env = fmupd ''OPENENCODE_WORKSPACE_DIR'' (workspace_dir c) env
      in env)"

text \<open>The \<^verbatim>\<open>except FileNotFoundError\<close> clause around both calls of \<^verbatim>\<open>subprocess.run\<close>.\<close>

definition except_not_found :: "exn \<Rightarrow> exn" where
  "except_not_found e =
     (if e = FileNotFoundError then RuntimeError ''opencode executable not found in PATH''
      else e)"

definition run ::
  "command_spec \<Rightarrow> host \<Rightarrow> environ \<Rightarrow> opencode_config \<Rightarrow> string list \<Rightarrow> bool \<Rightarrow>
   path option \<Rightarrow> exn + run_result" where
  "run command H environ c args interactive working_dir =
     (let cmd = executable command # args;
          env = build_env environ c
      in if interactive then
           (case subprocess_run H cmd env working_dir False of
              Inl e \<Rightarrow> Inl (except_not_found e)
            | Inr completed \<Rightarrow>
                Inr \<lparr>returncode = cp_returncode completed, stdout = None, stderr = None\<rparr>)
         else
           (case subprocess_run H cmd env working_dir True of
              Inl e \<Rightarrow> Inl (except_not_found e)
            | Inr completed \<Rightarrow>
                Inr \<lparr>returncode = cp_returncode completed,
                     stdout = cp_stdout completed,
                     stderr = cp_stderr completed\<rparr>))"

section \<open>A concrete host for the examples\<close>

text \<open>
  A loader that knows seven documents and takes every other text for invalid YAML; an
  ASCII locale; no path denied; a home directory \<^verbatim>\<open>/home/user\<close> and no other user; an
  integer coercion that takes booleans and plain digit strings; and an operating
  system on which \<^verbatim>\<open>opencode\<close> is the only program: it prints a line and exits with
  status 3.
\<close>

definition example_documents :: "(string \<times> yaml) list" where
  "example_documents =
     [(''model: a'', YMap (fmupd (KStr ''model'') (YStr ''a'') fmempty)),
      (''model: b'', YMap (fmupd (KStr ''model'') (YStr ''b'') fmempty)),
      (''1: a'', YMap (fmupd (KInt 1) (YStr ''a'') fmempty)),
      (''- 1'', YSeq [YInt 1]),
      (''[]'', YSeq []),
      (''0'', YInt 0),
      ([], YNull)]"

definition ascii :: "string \<Rightarrow> string option" where
  "ascii s = (if list_all (\<lambda>c. of_char c < (128::nat)) s then Some s else None)"

definition example_host :: host where
  "example_host =
     \<lparr>safe_load = (\<lambda>t. case map_of example_documents t of
                           Some v \<Rightarrow> Inr v
                         | None \<Rightarrow> Inl YAMLError),
      safe_dump = (\<lambda>v. ''{}''),
      locale_decode = ascii,
      locale_encode = ascii,
      denied = (\<lambda>p. False),
      expanduser = (\<lambda>s. if s = ''~'' then Some ''/home/user''
                         else if take 2 s = ''~/'' then Some (''/home/user'' @ drop 1 s)
                         else if take 1 s = ''~'' then None
                         else Some s),
      user_config_path = (\<lambda>app. [''home'', ''user'', ''.config'', app]),
      getcwd = [''home'', ''user'', ''project''],
      lax_int = (\<lambda>v. case v of
                        YBool b \<Rightarrow> Some (if b then 1 else 0)
                      | YStr s \<Rightarrow>
                          if list_all (\<lambda>c. digit_val c \<noteq> None) s then py_digits s else None
                      | other \<Rightarrow> None),
      launch = (\<lambda>cmd env cwd.
                  case cmd of
                    [] \<Rightarrow> Inl FileNotFoundError
                  | c # args \<Rightarrow>
                      if c = ''opencode''
                      then Inr \<lparr>exit_code = 3, out = ''hello'' @ [CHR 0x0A], err = []\<rparr>
                      else Inl FileNotFoundError)\<rparr>"

text \<open>
  The two configuration files of the default manager on that host, in a file system
  that holds their directories.
\<close>

definition example_user_file :: path where
  "example_user_file = [''home'', ''user'', ''.config'', ''opencode-wrapper'', ''config.yaml'']"

definition example_project_file :: path where
  "example_project_file = [''home'', ''user'', ''project'', ''.opencode.yaml'']"

definition example_dirs :: fs where
  "example_dirs =
     fmupd [''home'', ''user'', ''project''] Dir
       (fmupd [''home'', ''user'', ''.config'', ''opencode-wrapper''] Dir
         (fmupd [''home'', ''user'', ''.config''] Dir
           (fmupd [''home'', ''user''] Dir
             (fmupd [''home''] Dir fmempty))))"

definition example_files :: "string \<Rightarrow> string \<Rightarrow> fs" where
  "example_files user_bytes project_bytes =
     fmupd example_project_file (File project_bytes)
       (fmupd example_user_file (File user_bytes) example_dirs)"

section \<open>Basic facts\<close>

lemma py_int_empty: "py_int [] = None"
  by (simp add: py_int_def py_strip_def)

lemma py_int_notanumber: "py_int ''notanumber'' = None"
  by (simp add: py_int_def py_strip_def py_isspace_def py_digits_def digit_val_def)

lemma py_int_bounds:
  "py_int ''0'' = Some 0"
  "py_int ''1'' = Some 1"
  "py_int ''32000'' = Some 32000"
  "py_int ''32001'' = Some 32001"
  by (simp_all add: py_int_def py_strip_def py_isspace_def py_digits_def digit_val_def)

lemma py_str_4096: "py_str 4096 = ''4096''"
  by (simp add: py_str_def py_str_nat.simps)

text \<open>The text of an integer reads back as that integer.\<close>

lemma digit_val_nth: "n < 10 \<Longrightarrow> digit_val (''0123456789'' ! n) = Some (int n)"
proof -
  assume "n < 10"
  then have "n \<in> {0, 1, 2, 3, 4, 5, 6, 7, 8, 9}" by auto
  then show ?thesis by (auto simp: digit_val_def)
qed

lemma py_digits_from_snoc:
  "py_digits_from acc xs = Some a \<Longrightarrow> digit_val c = Some d \<Longrightarrow>
   py_digits_from acc (xs @ [c]) = Some (10 * a + d)"
proof (induction acc xs rule: py_digits_from.induct)
  case (1 acc)
  then show ?case by simp
next
  case (2 acc c' cs)
  then show ?case
    by (auto split: option.splits if_splits list.splits)
qed

lemma py_str_nat_nonempty: "py_str_nat n \<noteq> []"
  by (subst py_str_nat.simps) simp

lemma py_digits_str_nat: "py_digits (py_str_nat n) = Some (int n)"
proof (induction n rule: py_str_nat.induct)
  case (1 n)
  show ?case
  proof (cases "n < 10")
    case True
    then show ?thesis
      by (subst py_str_nat.simps) (simp add: py_digits_def digit_val_nth)
  next
    case False
    from "1.IH" [OF False]
    have ih: "py_digits (py_str_nat (n div 10)) = Some (int (n div 10))" .
    obtain c cs where cs: "py_str_nat (n div 10) = c # cs"
      using py_str_nat_nonempty [of "n div 10"] by (cases "py_str_nat (n div 10)") auto
    from ih cs obtain d
      where d: "digit_val c = Some d" "py_digits_from d cs = Some (int (n div 10))"
      by (auto simp: py_digits_def split: option.splits)
    have "py_digits_from d (cs @ [''0123456789'' ! (n mod 10)]) =
        Some (10 * int (n div 10) + int (n mod 10))"
      using d(2) by (rule py_digits_from_snoc) (simp add: digit_val_nth)
    moreover have "10 * int (n div 10) + int (n mod 10) = int n"
      by (simp add: zdiv_int zmod_int)
    ultimately show ?thesis
      using False cs d(1) by (subst py_str_nat.simps) (simp add: py_digits_def)
  qed
qed

lemma digit_val_chars:
  "digit_val c = Some d \<Longrightarrow> \<not> py_isspace c \<and> c \<noteq> CHR ''-'' \<and> c \<noteq> CHR ''+''"
  by (auto simp: digit_val_def py_isspace_def split: if_splits)

lemma py_str_nat_last: "\<exists>d. digit_val (last (py_str_nat n)) = Some d"
  by (subst py_str_nat.simps) (auto simp: digit_val_nth)

lemma py_str_nat_hd: "\<exists>d. digit_val (hd (py_str_nat n)) = Some d"
  using py_digits_str_nat [of n] py_str_nat_nonempty [of n]
  by (cases "py_str_nat n") (auto simp: py_digits_def split: option.splits)

lemma py_strip_id:
  assumes "xs \<noteq> []" "\<not> py_isspace (hd xs)" "\<not> py_isspace (last xs)"
  shows "py_strip xs = xs"
proof -
  have "dropWhile py_isspace xs = xs"
    using assms(1,2) by (cases xs) auto
  moreover have "dropWhile py_isspace (rev xs) = rev xs"
    using assms(1,3) by (cases xs rule: rev_cases) auto
  ultimately show ?thesis by (simp add: py_strip_def)
qed

lemma py_strip_str_nat: "py_strip (py_str_nat n) = py_str_nat n"
  using py_str_nat_nonempty [of n] py_str_nat_hd [of n] py_str_nat_last [of n] digit_val_chars
  by (intro py_strip_id) auto

lemma py_int_str_nat: "py_int (py_str_nat n) = Some (int n)"
proof -
  obtain c cs where cs: "py_str_nat n = c # cs"
    using py_str_nat_nonempty [of n] by (cases "py_str_nat n") auto
  have "c \<noteq> CHR ''-''" "c \<noteq> CHR ''+''"
    using py_str_nat_hd [of n] cs digit_val_chars by auto
  then show ?thesis
    unfolding py_int_def py_strip_str_nat using py_digits_str_nat [of n] by (simp add: cs)
qed

lemma py_int_py_str: "py_int (py_str i) = Some i"
proof (cases "i < 0")
  case False
  then show ?thesis by (simp add: py_str_def py_int_str_nat)
next
  case True
  have "py_strip (CHR ''-'' # py_str_nat (nat (- i))) = CHR ''-'' # py_str_nat (nat (- i))"
    using py_str_nat_nonempty [of "nat (- i)"] py_str_nat_last [of "nat (- i)"] digit_val_chars
    by (intro py_strip_id) (auto simp: py_isspace_def)
  then show ?thesis
    using True py_digits_str_nat [of "nat (- i)"] by (simp add: py_str_def py_int_def)
qed

text \<open>The environment.\<close>

lemma env_str_unset: "env_str (fmupd var [] env) var key m = m"
  by (simp add: env_str_def)

lemma env_max_tokens_unset:
  "env_max_tokens (fmupd ''OPENENCODE_MAX_TOKENS'' [] env) m = Inr m"
  by (simp add: env_max_tokens_def)

lemma env_str_empty:
  "env_str (fmupd k [] env) var key m = env_str (fmdrop k env) var key m"
  by (cases "k = var") (simp_all add: env_str_def)

lemma env_max_tokens_empty:
  "env_max_tokens (fmupd k [] env) m = env_max_tokens (fmdrop k env) m"
  by (cases "k = ''OPENENCODE_MAX_TOKENS''") (simp_all add: env_max_tokens_def)

lemma read_env_empty: "read_env (fmupd k [] env) = read_env (fmdrop k env)"
  by (simp add: read_env_def env_str_empty env_max_tokens_empty cong: sum.case_cong)

lemma read_env_none: "read_env fmempty = Inr fmempty"
  by (simp add: read_env_def env_str_def env_max_tokens_def)

lemma read_env_max_tokens:
  "py_int s = Some i \<Longrightarrow> s \<noteq> [] \<Longrightarrow>
   read_env (fmupd ''OPENENCODE_MAX_TOKENS'' s fmempty) =
     Inr (fmupd (KStr ''max_tokens'') (YInt i) fmempty)"
  by (simp add: read_env_def env_str_def env_max_tokens_def)

lemma read_env_max_tokens_error:
  assumes "fmlookup env ''OPENENCODE_MAX_TOKENS'' = Some s" "s \<noteq> []" "py_int s = None"
  shows "read_env env = Inl (ConfigError ''OPENENCODE_MAX_TOKENS must be an integer'')"
  using assms by (simp add: read_env_def env_max_tokens_def)

lemma read_env_model:
  "read_env (fmupd ''OPENENCODE_MODEL'' ''c'' fmempty) =
     Inr (fmupd (KStr ''model'') (YStr ''c'') fmempty)"
  by (simp add: read_env_def env_str_def env_max_tokens_def)

lemma read_env_workspace_dir:
  "read_env (fmupd ''OPENENCODE_WORKSPACE_DIR'' ''~/x'' fmempty) =
     Inr (fmupd (KStr ''workspace_dir'') (YStr ''~/x'') fmempty)"
  by (simp add: read_env_def env_str_def env_max_tokens_def)

text \<open>Validation.\<close>

lemma model_validate_empty: "model_validate H fmempty = Inr OpencodeConfig_default"
  by (simp add: model_validate_def validate_api_key_def validate_model_def
        validate_max_tokens_def validate_workspace_dir_def OpencodeConfig_default_def)

lemma model_validate_max_tokens_only:
  "model_validate H (fmupd (KStr ''max_tokens'') (YInt i) fmempty) =
     (if 1 \<le> i \<and> i \<le> 32000 then Inr (OpencodeConfig_default\<lparr>max_tokens := i\<rparr>)
      else Inl (ValidationError [''max_tokens'']))"
  by (simp add: model_validate_def validate_api_key_def validate_model_def
        validate_max_tokens_def validate_workspace_dir_def as_int_def field_errors_def
        OpencodeConfig_default_def)

lemma model_validate_model_only:
  "fmlookup d (KStr ''model'') = Some (YStr s) \<Longrightarrow> fmlookup d (KStr ''api_key'') = None \<Longrightarrow>
   fmlookup d (KStr ''max_tokens'') = None \<Longrightarrow> fmlookup d (KStr ''workspace_dir'') = None \<Longrightarrow>
   model_validate H d = Inr (OpencodeConfig_default\<lparr>model := s\<rparr>)"
  by (simp add: model_validate_def validate_api_key_def validate_model_def
        validate_max_tokens_def validate_workspace_dir_def OpencodeConfig_default_def)

text \<open>No failure of the validation is a \<^verbatim>\<open>ConfigError\<close>.\<close>

lemma validation_error_not_config_error:
  "model_validate H d = Inl e \<Longrightarrow> \<not> is_ConfigError e"
  by (auto simp: model_validate_def Let_def validate_workspace_dir_def expand_workspace_dir_def
        split: sum.splits option.splits yaml.splits)

text \<open>What a successful validation makes of the values it finds.\<close>

lemma model_validate_fields:
  assumes "model_validate H d = Inr c"
  shows "(\<forall>s. fmlookup d (KStr ''model'') = Some (YStr s) \<longrightarrow> model c = s) \<and>
         (\<forall>s. fmlookup d (KStr ''api_key'') = Some (YStr s) \<longrightarrow> api_key c = Some s) \<and>
         (\<forall>i. fmlookup d (KStr ''max_tokens'') = Some (YInt i) \<longrightarrow> max_tokens c = i) \<and>
         (\<forall>s. fmlookup d (KStr ''workspace_dir'') = Some (YStr s) \<longrightarrow>
              expanduser H s = Some (workspace_dir c))"
  using assms
  by (auto simp: model_validate_def Let_def validate_api_key_def validate_model_def
        validate_max_tokens_def validate_workspace_dir_def expand_workspace_dir_def as_int_def
        split: sum.splits option.splits if_splits)

text \<open>The merged mapping, key by key.\<close>

lemma merged_lookup:
  "fmlookup (merged u p e) k =
     (case fmlookup e k of
        Some v \<Rightarrow> Some v
      | None \<Rightarrow> (case fmlookup p k of Some v \<Rightarrow> Some v | None \<Rightarrow> fmlookup u k))"
  by (auto simp: merged_def fmlookup_dom_iff split: option.splits)

text \<open>Sources.\<close>

lemma str_keys_empty: "str_keys fmempty"
  by (simp add: str_keys_def)

lemma ConfigSource_ok:
  "str_keys d \<Longrightarrow> ConfigSource p ex ld d = Inr \<lparr>path = p, exists = ex, loaded = ld, data = d\<rparr>"
  by (simp add: ConfigSource_def)

lemma ConfigSource_refused:
  "\<not> str_keys d \<Longrightarrow> ConfigSource p ex ld d = Inl (ValidationError [''data''])"
  by (simp add: ConfigSource_def)

text \<open>Reading files.\<close>

lemma read_yaml_absent: "node_at files p = None \<Longrightarrow> read_yaml H files p = Inr fmempty"
  by (simp add: read_yaml_def)

lemma node_at_empty: "p \<noteq> [] \<Longrightarrow> node_at fmempty p = None"
  by (simp add: node_at_def)

lemma read_yaml_no_files: "p \<noteq> [] \<Longrightarrow> read_yaml H fmempty p = Inr fmempty"
  by (simp add: read_yaml_absent node_at_empty)

lemma paths_nonempty:
  "user_config_file (resolve_paths M H cwd) \<noteq> []"
  "project_config_file (resolve_paths M H cwd) \<noteq> []"
  by (simp_all add: resolve_paths_def Let_def)

lemma read_yaml_file:
  "node_at files p = Some (File b) \<Longrightarrow> \<not> denied H p \<Longrightarrow> locale_decode H b = Some t \<Longrightarrow>
   read_yaml H files p =
     (case safe_load H (universal_newlines t) of
        Inl e \<Rightarrow>
          if e = YAMLError then Inl (ConfigError (''Invalid YAML in '' @ path_str p))
          else Inl e
      | Inr v \<Rightarrow>
          (case (if truthy v then v else YMap fmempty) of
             YMap m \<Rightarrow> Inr m
           | other \<Rightarrow>
               Inl (ConfigError (''Config file '' @ path_str p @ '' must contain a mapping''))))"
  by (simp add: read_yaml_def read_text_def text_mode_def)

text \<open>A truthy document that is no mapping is refused, with the path in the message.\<close>

lemma read_yaml_not_mapping:
  assumes "node_at files p = Some (File b)" "\<not> denied H p" "locale_decode H b = Some t"
      and "safe_load H (universal_newlines t) = Inr v" "truthy v" "\<forall>m. v \<noteq> YMap m"
  shows "read_yaml H files p =
           Inl (ConfigError (''Config file '' @ path_str p @ '' must contain a mapping''))"
  using assms by (cases v) (simp_all add: read_yaml_file)

text \<open>\<open>load\<close>, step by step.\<close>

lemma load_no_files:
  "load M H fmempty env cwd =
     (case read_env env of
        Inl e \<Rightarrow> Inl e
      | Inr env_data \<Rightarrow>
          (case model_validate H env_data of
             Inl e \<Rightarrow> Inl e
           | Inr c \<Rightarrow>
               Inr \<lparr>config = c,
                    sources =
                      [\<lparr>path = user_config_file (resolve_paths M H cwd), exists = False,
                        loaded = False, data = fmempty\<rparr>,
                       \<lparr>path = project_config_file (resolve_paths M H cwd), exists = False,
                        loaded = False, data = fmempty\<rparr>]\<rparr>))"
  by (simp add: load_def Let_def read_yaml_no_files paths_nonempty merged_def ConfigSource_ok
        str_keys_empty path_exists_def node_at_empty cong: sum.case_cong)

lemma load_reads:
  assumes "read_yaml H files (user_config_file (resolve_paths M H cwd)) = Inr u"
      and "read_yaml H files (project_config_file (resolve_paths M H cwd)) = Inr p"
      and "str_keys u" and "str_keys p"
  shows "load M H files env cwd =
     (case read_env env of
        Inl e \<Rightarrow> Inl e
      | Inr env_data \<Rightarrow>
          (case model_validate H (merged u p env_data) of
             Inl e \<Rightarrow> Inl e
           | Inr c \<Rightarrow>
               Inr \<lparr>config = c,
                    sources =
                      [\<lparr>path = user_config_file (resolve_paths M H cwd),
                        exists = path_exists files (user_config_file (resolve_paths M H cwd)),
                        loaded = (u \<noteq> fmempty), data = u\<rparr>,
                       \<lparr>path = project_config_file (resolve_paths M H cwd),
                        exists = path_exists files (project_config_file (resolve_paths M H cwd)),
                        loaded = (p \<noteq> fmempty), data = p\<rparr>]\<rparr>))"
  using assms by (simp add: load_def Let_def ConfigSource_ok)

lemma load_user_error:
  "read_yaml H files (user_config_file (resolve_paths M H cwd)) = Inl e \<Longrightarrow>
   load M H files env cwd = Inl e"
  by (simp add: load_def Let_def)

lemma load_user_source_error:
  "read_yaml H files (user_config_file (resolve_paths M H cwd)) = Inr u \<Longrightarrow> \<not> str_keys u \<Longrightarrow>
   load M H files env cwd = Inl (ValidationError [''data''])"
  by (simp add: load_def Let_def ConfigSource_refused)

lemma load_project_error:
  "read_yaml H files (user_config_file (resolve_paths M H cwd)) = Inr u \<Longrightarrow> str_keys u \<Longrightarrow>
   read_yaml H files (project_config_file (resolve_paths M H cwd)) = Inl e \<Longrightarrow>
   load M H files env cwd = Inl e"
  by (simp add: load_def Let_def ConfigSource_ok)

lemma load_fails_on_env_error:
  assumes "read_env env = Inl e"
  shows "\<exists>e'. load M H files env cwd = Inl e'"
  using assms by (auto simp: load_def Let_def split: sum.splits)

lemma load_result_config:
  assumes "read_yaml H files (user_config_file (resolve_paths M H cwd)) = Inr u"
      and "read_yaml H files (project_config_file (resolve_paths M H cwd)) = Inr p"
      and "read_env env = Inr e"
      and "load M H files env cwd = Inr r"
  shows "model_validate H (merged u p e) = Inr (config r)"
  using assms by (auto simp: load_def Let_def split: sum.splits)

text \<open>The runner in terms of the launch: what it passes on and what it returns.\<close>

lemma build_env_lookup:
  "fmlookup (build_env environ c) k =
     (if k = ''OPENENCODE_WORKSPACE_DIR'' then Some (workspace_dir c)
      else if k = ''OPENENCODE_MAX_TOKENS'' then Some (py_str (max_tokens c))
      else if k = ''OPENENCODE_MODEL'' then Some (model c)
      else if k = ''OPENENCODE_API_KEY'' \<and> api_key c \<noteq> None \<and> api_key c \<noteq> Some []
        then api_key c
      else fmlookup environ k)"
  by (auto simp: build_env_def Let_def split: option.splits)

lemma run_launch:
  "run command H environ c args interactive wd =
     (case launch H (executable command # args) (build_env environ c) wd of
        Inl e \<Rightarrow> Inl (except_not_found e)
      | Inr ch \<Rightarrow>
          if interactive
          then Inr \<lparr>returncode = exit_code ch, stdout = None, stderr = None\<rparr>
          else
            (case locale_decode H (out ch) of
               None \<Rightarrow> Inl UnicodeDecodeError
             | Some out_text \<Rightarrow>
                 (case locale_decode H (err ch) of
                    None \<Rightarrow> Inl UnicodeDecodeError
                  | Some err_text \<Rightarrow>
                      Inr \<lparr>returncode = exit_code ch,
                           stdout = Some (universal_newlines out_text),
                           stderr = Some (universal_newlines err_text)\<rparr>)))"
  by (simp add: run_def subprocess_run_def text_mode_def except_not_found_def Let_def
        split: sum.splits option.splits)

text \<open>The example host and its files.\<close>

lemma ascii_text:
  "ascii ''model: a'' = Some ''model: a''"
  "ascii ''model: b'' = Some ''model: b''"
  "ascii ''1: a'' = Some ''1: a''"
  "ascii ''- 1'' = Some ''- 1''"
  "ascii ''[]'' = Some ''[]''"
  "ascii ''{'' = Some ''{''"
  "ascii ''{}'' = Some ''{}''"
  "ascii [] = Some []"
  "ascii (''hello'' @ [CHR 0x0A]) = Some (''hello'' @ [CHR 0x0A])"
  "ascii (''a'' @ [CHR 0x0D, CHR 0x0A] @ ''b'') = Some (''a'' @ [CHR 0x0D, CHR 0x0A] @ ''b'')"
  "ascii [CHR 0xFF] = None"
  by (simp_all add: ascii_def)

lemma universal_newlines_text:
  "universal_newlines ''model: a'' = ''model: a''"
  "universal_newlines ''model: b'' = ''model: b''"
  "universal_newlines ''1: a'' = ''1: a''"
  "universal_newlines ''- 1'' = ''- 1''"
  "universal_newlines ''[]'' = ''[]''"
  "universal_newlines ''{'' = ''{''"
  "universal_newlines [] = []"
  "universal_newlines (''hello'' @ [CHR 0x0A]) = ''hello'' @ [CHR 0x0A]"
  "universal_newlines (''a'' @ [CHR 0x0D, CHR 0x0A] @ ''b'') = ''a'' @ [CHR 0x0A] @ ''b''"
  by (simp_all add: universal_newlines_def cr_to_lf_def)

lemma example_locale:
  "locale_decode example_host = ascii" "locale_encode example_host = ascii"
  "denied example_host p = False"
  by (simp_all add: example_host_def)

lemma example_paths:
  "user_config_file (resolve_paths ConfigManager example_host None) = example_user_file"
  "project_config_file (resolve_paths ConfigManager example_host None) = example_project_file"
  "user_config_dir (resolve_paths ConfigManager example_host None) =
     [''home'', ''user'', ''.config'', ''opencode-wrapper'']"
  by (simp_all add: resolve_paths_def ConfigManager_def example_host_def example_user_file_def
        example_project_file_def)

lemma example_path_str:
  "path_str example_user_file = ''/home/user/.config/opencode-wrapper/config.yaml''"
  "path_str example_project_file = ''/home/user/project/.opencode.yaml''"
  by (simp_all add: path_str_def example_user_file_def example_project_file_def)

lemma example_nodes:
  "node_at (example_files ub pb) example_user_file = Some (File ub)"
  "node_at (example_files ub pb) example_project_file = Some (File pb)"
  by (simp_all add: node_at_def example_files_def example_user_file_def example_project_file_def)


lemma example_safe_load:
  "safe_load example_host ''model: a'' = Inr (YMap (fmupd (KStr ''model'') (YStr ''a'') fmempty))"
  "safe_load example_host ''model: b'' = Inr (YMap (fmupd (KStr ''model'') (YStr ''b'') fmempty))"
  "safe_load example_host ''1: a'' = Inr (YMap (fmupd (KInt 1) (YStr ''a'') fmempty))"
  "safe_load example_host ''- 1'' = Inr (YSeq [YInt 1])"
  "safe_load example_host ''[]'' = Inr (YSeq [])"
  "safe_load example_host [] = Inr YNull"
  "safe_load example_host ''{'' = Inl YAMLError"
  by (simp_all add: example_host_def example_documents_def)

lemma example_read_user:
  "read_yaml example_host (example_files ''model: a'' pb) example_user_file =
     Inr (fmupd (KStr ''model'') (YStr ''a'') fmempty)"
  "read_yaml example_host (example_files ''1: a'' pb) example_user_file =
     Inr (fmupd (KInt 1) (YStr ''a'') fmempty)"
  "read_yaml example_host (example_files [] pb) example_user_file = Inr fmempty"
  "read_yaml example_host (example_files ''[]'' pb) example_user_file = Inr fmempty"
  "read_yaml example_host (example_files ''{'' pb) example_user_file =
     Inl (ConfigError ''Invalid YAML in /home/user/.config/opencode-wrapper/config.yaml'')"
  by (simp_all add: read_yaml_file [OF example_nodes(1)] example_locale ascii_text
        universal_newlines_text example_safe_load example_path_str)

lemma example_read_project:
  "read_yaml example_host (example_files ub ''model: b'') example_project_file =
     Inr (fmupd (KStr ''model'') (YStr ''b'') fmempty)"
  "read_yaml example_host (example_files ub []) example_project_file = Inr fmempty"
  by (simp_all add: read_yaml_file [OF example_nodes(2)] example_locale ascii_text
        universal_newlines_text example_safe_load)

lemma example_str_keys:
  "str_keys (fmupd (KStr ''model'') (YStr s) fmempty)"
  "\<not> str_keys (fmupd (KInt 1) (YStr s) fmempty)"
  by (simp_all add: str_keys_def)

lemma example_launch:
  "launch example_host (''opencode'' # args) env wd =
     Inr \<lparr>exit_code = 3, out = ''hello'' @ [CHR 0x0A], err = []\<rparr>"
  by (simp add: example_host_def)















section \<open>Resolution of the configuration\<close>

text \<open>
  C2. With no configuration file and no environment variable, \<open>load\<close> returns the declared
  defaults for every manager, host and working directory: model \<^verbatim>\<open>gpt-4\<close>, 4096 tokens,
  no API key. The workspace directory is the default as declared,
  \<^verbatim>\<open>~/opencode-workspace\<close>, not its expansion: on the example host the expansion is
  \<^verbatim>\<open>/home/user/opencode-workspace\<close>, which is what the same text gives when a source
  supplies it.
\<close>

theorem defaults_workspace_dir_unexpanded:
  "load M H fmempty fmempty cwd =
     Inr \<lparr>config = \<lparr>api_key = None, model = ''gpt-4'', max_tokens = 4096,
                     workspace_dir = ''~/opencode-workspace''\<rparr>,
          sources =
            [\<lparr>path = user_config_path H (app_name M) @ [''config.yaml''],
              exists = False, loaded = False, data = fmempty\<rparr>,
             \<lparr>path = (case cwd of Some d \<Rightarrow> d | None \<Rightarrow> getcwd H) @ [project_file M],
              exists = False, loaded = False, data = fmempty\<rparr>]\<rparr> \<and>
   expanduser example_host ''~/opencode-workspace'' = Some ''/home/user/opencode-workspace'' \<and>
   model_validate example_host
       (fmupd (KStr ''workspace_dir'') (YStr ''~/opencode-workspace'') fmempty) =
     Inr \<lparr>api_key = None, model = ''gpt-4'', max_tokens = 4096,
          workspace_dir = ''/home/user/opencode-workspace''\<rparr>"
  by (simp add: load_no_files read_env_none model_validate_empty resolve_paths_def Let_def
        OpencodeConfig_default_def model_validate_def validate_api_key_def validate_model_def
        validate_max_tokens_def validate_workspace_dir_def expand_workspace_dir_def
        example_host_def)

text \<open>
  C3. With no configuration file, \<^verbatim>\<open>OPENENCODE_MAX_TOKENS\<close> set to 1 or to 32000 is
  accepted. Set to 0 or to 32001 it makes \<open>load\<close> fail, for every manager, host and
  working directory, and the exception is pydantic's \<^verbatim>\<open>ValidationError\<close>, which is not
  a \<^verbatim>\<open>ConfigError\<close>.
\<close>

theorem out_of_range_untyped:
  "load M H fmempty (fmupd ''OPENENCODE_MAX_TOKENS'' ''0'' fmempty) cwd =
     Inl (ValidationError [''max_tokens'']) \<and>
   load M H fmempty (fmupd ''OPENENCODE_MAX_TOKENS'' ''32001'' fmempty) cwd =
     Inl (ValidationError [''max_tokens'']) \<and>
   \<not> is_ConfigError (ValidationError [''max_tokens'']) \<and>
   map_sum id (max_tokens \<circ> config)
     (load M H fmempty (fmupd ''OPENENCODE_MAX_TOKENS'' ''1'' fmempty) cwd) = Inr 1 \<and>
   map_sum id (max_tokens \<circ> config)
     (load M H fmempty (fmupd ''OPENENCODE_MAX_TOKENS'' ''32000'' fmempty) cwd) = Inr 32000"
  by (simp add: load_no_files read_env_max_tokens [OF py_int_bounds(1)]
        read_env_max_tokens [OF py_int_bounds(2)] read_env_max_tokens [OF py_int_bounds(3)]
        read_env_max_tokens [OF py_int_bounds(4)] model_validate_max_tokens_only)

text \<open>
  C4, as stated, fails in three ways. The empty string is not parseable as an integer,
  yet with \<^verbatim>\<open>OPENENCODE_MAX_TOKENS\<close> set to it \<open>load\<close> returns what it returns without
  the variable, a result. And with the variable set to \<^verbatim>\<open>notanumber\<close>, a user file that
  is invalid YAML makes \<open>load\<close> fail with the error of that file, and a user file with
  an integer key makes it fail with pydantic's \<^verbatim>\<open>ValidationError\<close> of the source
  record: neither error names the variable, which is never read.
\<close>

theorem max_tokens_env_not_reported:
  "py_int [] = None \<and>
   load ConfigManager example_host fmempty (fmupd ''OPENENCODE_MAX_TOKENS'' [] fmempty) None =
   load ConfigManager example_host fmempty fmempty None \<and>
   (\<exists>r. load ConfigManager example_host fmempty fmempty None = Inr r) \<and>
   py_int ''notanumber'' = None \<and>
   load ConfigManager example_host (example_files ''{'' [])
        (fmupd ''OPENENCODE_MAX_TOKENS'' ''notanumber'' fmempty) None =
     Inl (ConfigError ''Invalid YAML in /home/user/.config/opencode-wrapper/config.yaml'') \<and>
   load ConfigManager example_host (example_files ''1: a'' [])
        (fmupd ''OPENENCODE_MAX_TOKENS'' ''notanumber'' fmempty) None =
     Inl (ValidationError [''data''])"
proof -
  have "load ConfigManager example_host fmempty (fmupd ''OPENENCODE_MAX_TOKENS'' [] fmempty) None =
      load ConfigManager example_host fmempty fmempty None"
    by (simp add: load_no_files read_env_empty)
  moreover have "\<exists>r. load ConfigManager example_host fmempty fmempty None = Inr r"
    by (simp add: load_no_files read_env_none model_validate_empty)
  moreover have "load ConfigManager example_host (example_files ''{'' [])
        (fmupd ''OPENENCODE_MAX_TOKENS'' ''notanumber'' fmempty) None =
     Inl (ConfigError ''Invalid YAML in /home/user/.config/opencode-wrapper/config.yaml'')"
    by (rule load_user_error) (simp add: example_paths example_read_user)
  moreover have "load ConfigManager example_host (example_files ''1: a'' [])
        (fmupd ''OPENENCODE_MAX_TOKENS'' ''notanumber'' fmempty) None =
     Inl (ValidationError [''data''])"
    by (rule load_user_source_error [where u = "fmupd (KInt 1) (YStr ''a'') fmempty"])
      (simp_all add: example_paths example_read_user example_str_keys)
  ultimately show ?thesis by (simp add: py_int_empty py_int_notanumber)
qed

text \<open>
  C4, amended. When \<^verbatim>\<open>OPENENCODE_MAX_TOKENS\<close> is set to a non-empty value that is not
  parseable as an integer, reading the environment raises the \<^verbatim>\<open>ConfigError\<close> that names
  the variable and \<open>load\<close> fails; when both configuration files are read without an
  error and hold string keys only, so that both are recorded as sources, \<open>load\<close> fails
  with that very error.
\<close>

theorem max_tokens_env_not_integer:
  assumes "fmlookup env ''OPENENCODE_MAX_TOKENS'' = Some s" and "s \<noteq> []" and "py_int s = None"
  shows "read_env env = Inl (ConfigError ''OPENENCODE_MAX_TOKENS must be an integer'') \<and>
         (\<exists>e. load M H files env cwd = Inl e) \<and>
         ((\<exists>u p. read_yaml H files (user_config_file (resolve_paths M H cwd)) = Inr u \<and>
                 read_yaml H files (project_config_file (resolve_paths M H cwd)) = Inr p \<and>
                 str_keys u \<and> str_keys p) \<longrightarrow>
          load M H files env cwd =
            Inl (ConfigError ''OPENENCODE_MAX_TOKENS must be an integer''))"
proof -
  have r: "read_env env = Inl (ConfigError ''OPENENCODE_MAX_TOKENS must be an integer'')"
    using assms by (rule read_env_max_tokens_error)
  moreover have "\<exists>e. load M H files env cwd = Inl e"
    using r by (rule load_fails_on_env_error)
  moreover have
    "load M H files env cwd = Inl (ConfigError ''OPENENCODE_MAX_TOKENS must be an integer'')"
    if "read_yaml H files (user_config_file (resolve_paths M H cwd)) = Inr u"
       "read_yaml H files (project_config_file (resolve_paths M H cwd)) = Inr p"
       "str_keys u" "str_keys p" for u p
    using r by (simp add: load_reads [OF that])
  ultimately show ?thesis by blast
qed

theorem max_tokens_env_not_integer_witness:
  "load ConfigManager example_host (example_files ''model: a'' [])
        (fmupd ''OPENENCODE_MAX_TOKENS'' ''notanumber'' fmempty) None
     = Inl (ConfigError ''OPENENCODE_MAX_TOKENS must be an integer'')"
proof -
  have "\<exists>u p.
      read_yaml example_host (example_files ''model: a'' [])
        (user_config_file (resolve_paths ConfigManager example_host None)) = Inr u \<and>
      read_yaml example_host (example_files ''model: a'' [])
        (project_config_file (resolve_paths ConfigManager example_host None)) = Inr p \<and>
      str_keys u \<and> str_keys p"
    by (simp add: example_paths example_read_user example_read_project example_str_keys
          str_keys_empty)
  with max_tokens_env_not_integer
    [where env = "fmupd ''OPENENCODE_MAX_TOKENS'' ''notanumber'' fmempty"
       and s = "''notanumber''" and H = example_host
       and files = "example_files ''model: a'' []" and M = ConfigManager and cwd = None]
  show ?thesis by (simp add: py_int_notanumber)
qed

text \<open>
  C10. A variable set to the empty string is read as if it were unset, whatever its
  name: its step of \<open>read_env\<close> leaves the mapping without a new key and raises
  nothing, and \<open>read_env\<close> and \<open>load\<close> return what they return with the variable
  removed. This holds for \<^verbatim>\<open>OPENENCODE_MAX_TOKENS\<close> too, although the empty string is
  not parseable as an integer.
\<close>

theorem empty_variable_as_absent:
  "py_int [] = None \<and>
   env_str (fmupd var [] env) var key m = m \<and>
   env_max_tokens (fmupd ''OPENENCODE_MAX_TOKENS'' [] env) m = Inr m \<and>
   read_env (fmupd var [] env) = read_env (fmdrop var env) \<and>
   load M H files (fmupd var [] env) cwd = load M H files (fmdrop var env) cwd"
  unfolding load_def read_env_empty
  by (simp add: py_int_empty env_str_unset env_max_tokens_unset)

section \<open>Precedence of the sources\<close>

text \<open>
  C1, as stated, fails three times. In its last example: with the \<^verbatim>\<open>model\<close> value
  removed from both files the resolved model is not \<^verbatim>\<open>a\<close>; it is \<^verbatim>\<open>c\<close> while
  \<^verbatim>\<open>OPENENCODE_MODEL=c\<close> is set, and the default \<^verbatim>\<open>gpt-4\<close> once that is removed too. In
  its rule: the environment mapping holds \<^verbatim>\<open>~/x\<close> for the workspace directory, but the
  resolved value is not that value; it is the expansion \<^verbatim>\<open>/home/user/x\<close>. And for a
  user file that is the mapping \<^verbatim>\<open>1: a\<close>, with \<^verbatim>\<open>OPENENCODE_MODEL=c\<close> set: nothing is
  resolved, since \<open>load\<close> raises pydantic's \<^verbatim>\<open>ValidationError\<close> when it records the file
  as a source.
\<close>

theorem precedence_examples_fail:
  "map_sum id (model \<circ> config)
     (load ConfigManager example_host (example_files [] [])
        (fmupd ''OPENENCODE_MODEL'' ''c'' fmempty) None) = Inr ''c'' \<and>
   map_sum id (model \<circ> config)
     (load ConfigManager example_host (example_files [] []) fmempty None) = Inr ''gpt-4'' \<and>
   read_env (fmupd ''OPENENCODE_WORKSPACE_DIR'' ''~/x'' fmempty) =
     Inr (fmupd (KStr ''workspace_dir'') (YStr ''~/x'') fmempty) \<and>
   map_sum id (workspace_dir \<circ> config)
     (load ConfigManager example_host fmempty
        (fmupd ''OPENENCODE_WORKSPACE_DIR'' ''~/x'' fmempty) None) = Inr ''/home/user/x'' \<and>
   load ConfigManager example_host (example_files ''1: a'' [])
        (fmupd ''OPENENCODE_MODEL'' ''c'' fmempty) None = Inl (ValidationError [''data''])"
proof -
  have reads:
    "read_yaml example_host (example_files [] [])
       (user_config_file (resolve_paths ConfigManager example_host None)) = Inr fmempty"
    "read_yaml example_host (example_files [] [])
       (project_config_file (resolve_paths ConfigManager example_host None)) = Inr fmempty"
    by (simp_all add: example_paths example_read_user example_read_project)
  have "map_sum id (model \<circ> config)
     (load ConfigManager example_host (example_files [] [])
        (fmupd ''OPENENCODE_MODEL'' ''c'' fmempty) None) = Inr ''c''"
    by (simp add: load_reads [OF reads str_keys_empty str_keys_empty] read_env_model
          merged_lookup model_validate_model_only OpencodeConfig_default_def)
  moreover have "map_sum id (model \<circ> config)
     (load ConfigManager example_host (example_files [] []) fmempty None) = Inr ''gpt-4''"
    by (simp add: load_reads [OF reads str_keys_empty str_keys_empty] read_env_none
          merged_def model_validate_empty OpencodeConfig_default_def)
  moreover have "map_sum id (workspace_dir \<circ> config)
     (load ConfigManager example_host fmempty
        (fmupd ''OPENENCODE_WORKSPACE_DIR'' ''~/x'' fmempty) None) = Inr ''/home/user/x''"
    by (simp add: load_no_files read_env_workspace_dir model_validate_def validate_api_key_def
          validate_model_def validate_max_tokens_def validate_workspace_dir_def
          expand_workspace_dir_def OpencodeConfig_default_def example_host_def)
  moreover have "load ConfigManager example_host (example_files ''1: a'' [])
        (fmupd ''OPENENCODE_MODEL'' ''c'' fmempty) None = Inl (ValidationError [''data''])"
    by (rule load_user_source_error [where u = "fmupd (KInt 1) (YStr ''a'') fmempty"])
      (simp_all add: example_paths example_read_user example_str_keys)
  ultimately show ?thesis by (simp add: read_env_workspace_dir)
qed

text \<open>
  C1, amended. When both files and the environment are read, every key of the merged
  mapping has the value of the environment mapping if the key is there, else that of
  the project file if the key is there, else that of the user file. When both files
  hold string keys only, \<open>load\<close> is the validation of that merged mapping. And when
  \<open>load\<close> returns a result, its configuration is that validation: the resolved model
  and API key are the merged value when that is a string, the resolved max-tokens is
  the merged value when that is an integer, and the resolved workspace directory is
  the expansion of the merged value. In the example, user file
  \<^verbatim>\<open>model: a\<close>, project file \<^verbatim>\<open>model: b\<close> and \<^verbatim>\<open>OPENENCODE_MODEL=c\<close> resolve to \<^verbatim>\<open>c\<close>;
  without the variable to \<^verbatim>\<open>b\<close>; without the variable and the project file's value
  to \<^verbatim>\<open>a\<close>.
\<close>

theorem source_precedence:
  assumes "read_yaml H files (user_config_file (resolve_paths M H cwd)) = Inr u"
      and "read_yaml H files (project_config_file (resolve_paths M H cwd)) = Inr p"
      and "read_env env = Inr e"
  shows "(\<forall>k. fmlookup (merged u p e) k =
            (case fmlookup e k of
               Some v \<Rightarrow> Some v
             | None \<Rightarrow> (case fmlookup p k of Some v \<Rightarrow> Some v | None \<Rightarrow> fmlookup u k))) \<and>
         (str_keys u \<and> str_keys p \<longrightarrow>
            load M H files env cwd =
              (case model_validate H (merged u p e) of
                 Inl x \<Rightarrow> Inl x
               | Inr c \<Rightarrow>
                   Inr \<lparr>config = c,
                        sources =
                          [\<lparr>path = user_config_file (resolve_paths M H cwd),
                            exists = path_exists files (user_config_file (resolve_paths M H cwd)),
                            loaded = (u \<noteq> fmempty), data = u\<rparr>,
                           \<lparr>path = project_config_file (resolve_paths M H cwd),
                            exists =
                              path_exists files (project_config_file (resolve_paths M H cwd)),
                            loaded = (p \<noteq> fmempty), data = p\<rparr>]\<rparr>)) \<and>
         (\<forall>r. load M H files env cwd = Inr r \<longrightarrow>
            model_validate H (merged u p e) = Inr (config r) \<and>
            (\<forall>s. fmlookup (merged u p e) (KStr ''model'') = Some (YStr s) \<longrightarrow>
                 model (config r) = s) \<and>
            (\<forall>s. fmlookup (merged u p e) (KStr ''api_key'') = Some (YStr s) \<longrightarrow>
                 api_key (config r) = Some s) \<and>
            (\<forall>i. fmlookup (merged u p e) (KStr ''max_tokens'') = Some (YInt i) \<longrightarrow>
                 max_tokens (config r) = i) \<and>
            (\<forall>s. fmlookup (merged u p e) (KStr ''workspace_dir'') = Some (YStr s) \<longrightarrow>
                 expanduser H s = Some (workspace_dir (config r))))"
proof -
  have law: "\<forall>k. fmlookup (merged u p e) k =
      (case fmlookup e k of
         Some v \<Rightarrow> Some v
       | None \<Rightarrow> (case fmlookup p k of Some v \<Rightarrow> Some v | None \<Rightarrow> fmlookup u k))"
    by (rule allI) (rule merged_lookup)
  have ld: "str_keys u \<and> str_keys p \<longrightarrow>
      load M H files env cwd =
        (case model_validate H (merged u p e) of
           Inl x \<Rightarrow> Inl x
         | Inr c \<Rightarrow>
             Inr \<lparr>config = c,
                  sources =
                    [\<lparr>path = user_config_file (resolve_paths M H cwd),
                      exists = path_exists files (user_config_file (resolve_paths M H cwd)),
                      loaded = (u \<noteq> fmempty), data = u\<rparr>,
                     \<lparr>path = project_config_file (resolve_paths M H cwd),
                      exists =
                        path_exists files (project_config_file (resolve_paths M H cwd)),
                      loaded = (p \<noteq> fmempty), data = p\<rparr>]\<rparr>)"
  proof
    assume k: "str_keys u \<and> str_keys p"
    from k have ku: "str_keys u" and kp: "str_keys p" by simp_all
    show "load M H files env cwd =
        (case model_validate H (merged u p e) of
           Inl x \<Rightarrow> Inl x
         | Inr c \<Rightarrow>
             Inr \<lparr>config = c,
                  sources =
                    [\<lparr>path = user_config_file (resolve_paths M H cwd),
                      exists = path_exists files (user_config_file (resolve_paths M H cwd)),
                      loaded = (u \<noteq> fmempty), data = u\<rparr>,
                     \<lparr>path = project_config_file (resolve_paths M H cwd),
                      exists =
                        path_exists files (project_config_file (resolve_paths M H cwd)),
                      loaded = (p \<noteq> fmempty), data = p\<rparr>]\<rparr>)"
      unfolding load_reads [OF assms(1,2) ku kp] assms(3) by simp
  qed
  have res: "\<forall>r. load M H files env cwd = Inr r \<longrightarrow>
      model_validate H (merged u p e) = Inr (config r) \<and>
      (\<forall>s. fmlookup (merged u p e) (KStr ''model'') = Some (YStr s) \<longrightarrow>
           model (config r) = s) \<and>
      (\<forall>s. fmlookup (merged u p e) (KStr ''api_key'') = Some (YStr s) \<longrightarrow>
           api_key (config r) = Some s) \<and>
      (\<forall>i. fmlookup (merged u p e) (KStr ''max_tokens'') = Some (YInt i) \<longrightarrow>
           max_tokens (config r) = i) \<and>
      (\<forall>s. fmlookup (merged u p e) (KStr ''workspace_dir'') = Some (YStr s) \<longrightarrow>
           expanduser H s = Some (workspace_dir (config r)))"
  proof (intro allI impI)
    fix r assume "load M H files env cwd = Inr r"
    with assms have mv: "model_validate H (merged u p e) = Inr (config r)"
      by (rule load_result_config)
    from mv model_validate_fields [OF mv]
    show "model_validate H (merged u p e) = Inr (config r) \<and>
      (\<forall>s. fmlookup (merged u p e) (KStr ''model'') = Some (YStr s) \<longrightarrow>
           model (config r) = s) \<and>
      (\<forall>s. fmlookup (merged u p e) (KStr ''api_key'') = Some (YStr s) \<longrightarrow>
           api_key (config r) = Some s) \<and>
      (\<forall>i. fmlookup (merged u p e) (KStr ''max_tokens'') = Some (YInt i) \<longrightarrow>
           max_tokens (config r) = i) \<and>
      (\<forall>s. fmlookup (merged u p e) (KStr ''workspace_dir'') = Some (YStr s) \<longrightarrow>
           expanduser H s = Some (workspace_dir (config r)))"
      by (rule conjI)
  qed
  show ?thesis by (intro conjI) (rule law, rule ld, rule res)
qed

theorem source_precedence_witness:
  "map_sum id (model \<circ> config)
     (load ConfigManager example_host (example_files ''model: a'' ''model: b'')
        (fmupd ''OPENENCODE_MODEL'' ''c'' fmempty) None) = Inr ''c'' \<and>
   map_sum id (model \<circ> config)
     (load ConfigManager example_host (example_files ''model: a'' ''model: b'')
        fmempty None) = Inr ''b'' \<and>
   map_sum id (model \<circ> config)
     (load ConfigManager example_host (example_files ''model: a'' [])
        fmempty None) = Inr ''a''"
proof -
  let ?a = "fmupd (KStr ''model'') (YStr ''a'') fmempty"
  let ?b = "fmupd (KStr ''model'') (YStr ''b'') fmempty"
  let ?c = "fmupd (KStr ''model'') (YStr ''c'') fmempty"
  have ua: "read_yaml example_host (example_files ''model: a'' pb)
      (user_config_file (resolve_paths ConfigManager example_host None)) = Inr ?a" for pb
    by (simp add: example_paths example_read_user)
  have pb: "read_yaml example_host (example_files ub ''model: b'')
      (project_config_file (resolve_paths ConfigManager example_host None)) = Inr ?b" for ub
    by (simp add: example_paths example_read_project)
  have p0: "read_yaml example_host (example_files ub [])
      (project_config_file (resolve_paths ConfigManager example_host None)) = Inr fmempty" for ub
    by (simp add: example_paths example_read_project)
  note abc = source_precedence [OF ua pb read_env_model]
  from abc obtain r where r:
      "load ConfigManager example_host (example_files ''model: a'' ''model: b'')
         (fmupd ''OPENENCODE_MODEL'' ''c'' fmempty) None = Inr r"
    by (simp add: example_str_keys model_validate_model_only)
  have "fmlookup (merged ?a ?b ?c) (KStr ''model'') = Some (YStr ''c'')"
    by (simp add: merged_lookup)
  with abc r have "model (config r) = ''c''" by blast
  with r have "map_sum id (model \<circ> config)
     (load ConfigManager example_host (example_files ''model: a'' ''model: b'')
        (fmupd ''OPENENCODE_MODEL'' ''c'' fmempty) None) = Inr ''c''"
    by simp
  moreover have "map_sum id (model \<circ> config)
     (load ConfigManager example_host (example_files ''model: a'' ''model: b'')
        fmempty None) = Inr ''b''"
    using source_precedence [OF ua pb read_env_none]
    by (simp add: example_str_keys model_validate_model_only OpencodeConfig_default_def)
  moreover have "map_sum id (model \<circ> config)
     (load ConfigManager example_host (example_files ''model: a'' [])
        fmempty None) = Inr ''a''"
    using source_precedence [OF ua p0 read_env_none]
    by (simp add: example_str_keys str_keys_empty model_validate_model_only
          OpencodeConfig_default_def)
  ultimately show ?thesis by blast
qed

section \<open>Files that hold no mapping\<close>

text \<open>
  C5. A user file that holds the empty sequence holds no mapping, yet \<open>read_yaml\<close>
  reads it as the empty mapping and \<open>load\<close> returns the defaults, with no error; the
  same happens to the document \<^verbatim>\<open>0\<close>. A non-empty sequence in the same file is
  refused with the \<^verbatim>\<open>ConfigError\<close> that names the path.
\<close>

theorem empty_sequence_accepted:
  "safe_load example_host ''[]'' = Inr (YSeq []) \<and>
   (\<forall>m. YSeq [] \<noteq> YMap m) \<and>
   read_yaml example_host (example_files ''[]'' []) example_user_file = Inr fmempty \<and>
   map_sum id config
     (load ConfigManager example_host (example_files ''[]'' []) fmempty None) =
     Inr OpencodeConfig_default \<and>
   read_yaml example_host (example_files ''0'' []) example_user_file = Inr fmempty \<and>
   load ConfigManager example_host (example_files ''- 1'' []) fmempty None =
     Inl (ConfigError
       ''Config file /home/user/.config/opencode-wrapper/config.yaml must contain a mapping'')"
proof -
  have reads:
    "read_yaml example_host (example_files ''[]'' [])
       (user_config_file (resolve_paths ConfigManager example_host None)) = Inr fmempty"
    "read_yaml example_host (example_files ''[]'' [])
       (project_config_file (resolve_paths ConfigManager example_host None)) = Inr fmempty"
    by (simp_all add: example_paths example_read_user example_read_project)
  have "map_sum id config
     (load ConfigManager example_host (example_files ''[]'' []) fmempty None) =
     Inr OpencodeConfig_default"
    by (simp add: load_reads [OF reads str_keys_empty str_keys_empty] read_env_none merged_def
          model_validate_empty)
  moreover have "read_yaml example_host (example_files ''0'' []) example_user_file = Inr fmempty"
    by (simp add: read_yaml_file [OF example_nodes(1)] example_locale ascii_def
          universal_newlines_def cr_to_lf_def example_host_def example_documents_def)
  moreover have "load ConfigManager example_host (example_files ''- 1'' []) fmempty None =
     Inl (ConfigError
       ''Config file /home/user/.config/opencode-wrapper/config.yaml must contain a mapping'')"
    by (rule load_user_error)
      (simp add: example_paths read_yaml_file [OF example_nodes(1)] example_locale ascii_text
        universal_newlines_text example_safe_load example_path_str)
  ultimately show ?thesis
    by (simp add: example_safe_load example_read_user)
qed

section \<open>Writing the default configuration\<close>




section \<open>Invocation of the command\<close>




text \<open>
  C8, as stated, fails in captured mode. A child that writes \<^verbatim>\<open>a\<close>, CR, LF, \<^verbatim>\<open>b\<close> and
  exits with 0 yields the text \<^verbatim>\<open>a\<close>, LF, \<^verbatim>\<open>b\<close>, which is not what it wrote; and a
  child that writes the byte FF, which does not decode, makes \<open>run\<close> raise
  \<^verbatim>\<open>UnicodeDecodeError\<close> although the child ran to completion.
\<close>

theorem captured_text_differs:
  "run CommandSpec
       (example_host\<lparr>launch := \<lambda>cmd env cwd.
          Inr \<lparr>exit_code = 0, out = ''a'' @ [CHR 0x0D, CHR 0x0A] @ ''b'', err = []\<rparr>\<rparr>)
       fmempty OpencodeConfig_default [] False None =
     Inr \<lparr>returncode = 0, stdout = Some (''a'' @ [CHR 0x0A] @ ''b''), stderr = Some []\<rparr> \<and>
   ''a'' @ [CHR 0x0A] @ ''b'' \<noteq> ''a'' @ [CHR 0x0D, CHR 0x0A] @ ''b'' \<and>
   run CommandSpec
       (example_host\<lparr>launch := \<lambda>cmd env cwd.
          Inr \<lparr>exit_code = 0, out = [CHR 0xFF], err = []\<rparr>\<rparr>)
       fmempty OpencodeConfig_default [] False None =
     Inl UnicodeDecodeError"
  by (simp add: run_launch example_host_def ascii_def universal_newlines_def cr_to_lf_def)

text \<open>
  C8, amended. When the child runs to completion, in interactive mode \<open>run\<close> returns
  the child's exit code with both text fields absent; in captured mode, when the bytes
  the child wrote to standard output and to standard error decode in the locale, it
  returns the exit code with the decoded text of both streams under universal
  newlines (every CR LF, then every CR, replaced by LF). The exit code is any integer,
  zero or not, and is returned, not raised.
\<close>

theorem completed_child_result:
  assumes "launch H (executable command # args) (build_env environ c) wd = Inr ch"
  shows "run command H environ c args True wd =
           Inr \<lparr>returncode = exit_code ch, stdout = None, stderr = None\<rparr> \<and>
         (\<forall>out_text err_text.
            locale_decode H (out ch) = Some out_text \<and>
            locale_decode H (err ch) = Some err_text \<longrightarrow>
            run command H environ c args False wd =
              Inr \<lparr>returncode = exit_code ch,
                   stdout = Some (universal_newlines out_text),
                   stderr = Some (universal_newlines err_text)\<rparr>)"
  using assms by (simp add: run_launch)

theorem completed_child_result_witness:
  "run CommandSpec example_host fmempty OpencodeConfig_default [''--version''] True None =
     Inr \<lparr>returncode = 3, stdout = None, stderr = None\<rparr> \<and>
   run CommandSpec example_host fmempty OpencodeConfig_default [''--version''] False None =
     Inr \<lparr>returncode = 3, stdout = Some (''hello'' @ [CHR 0x0A]), stderr = Some []\<rparr>"
proof -
  let ?ch = "\<lparr>exit_code = 3, out = ''hello'' @ [CHR 0x0A], err = []\<rparr>"
  have l: "launch example_host (executable CommandSpec # [''--version''])
      (build_env fmempty OpencodeConfig_default) None = Inr ?ch"
    by (simp add: example_launch CommandSpec_def)
  have d: "locale_decode example_host (out ?ch) = Some (''hello'' @ [CHR 0x0A]) \<and>
      locale_decode example_host (err ?ch) = Some []"
    by (simp add: example_locale ascii_def)
  note t = completed_child_result [OF l]
  from t have "run CommandSpec example_host fmempty OpencodeConfig_default [''--version''] True
      None = Inr \<lparr>returncode = 3, stdout = None, stderr = None\<rparr>"
    by simp
  moreover from t d have
    "run CommandSpec example_host fmempty OpencodeConfig_default [''--version''] False None =
       Inr \<lparr>returncode = exit_code ?ch,
            stdout = Some (universal_newlines (''hello'' @ [CHR 0x0A])),
            stderr = Some (universal_newlines [])\<rparr>"
    by blast
  ultimately show ?thesis by (simp add: universal_newlines_def cr_to_lf_def)
qed

text \<open>
  C9. The environment \<open>run\<close> hands to the launch is \<open>build_env\<close> of the process
  environment and the configuration. In it the workspace, max-tokens and model
  variables hold the configuration's fields as text, whatever the process environment
  held; the API key variable holds the configured key when there is a non-empty one;
  every other variable, and the API key variable otherwise, is as in the process
  environment. What \<open>run\<close> returns depends on the process environment and the
  configuration through that launch only.
\<close>

theorem child_environment:
  "fmlookup (build_env environ c) k =
     (if k = ''OPENENCODE_WORKSPACE_DIR'' then Some (workspace_dir c)
      else if k = ''OPENENCODE_MAX_TOKENS'' then Some (py_str (max_tokens c))
      else if k = ''OPENENCODE_MODEL'' then Some (model c)
      else if k = ''OPENENCODE_API_KEY'' \<and> api_key c \<noteq> None \<and> api_key c \<noteq> Some []
        then api_key c
      else fmlookup environ k) \<and>
   run command H environ c args interactive wd =
     (case launch H (executable command # args) (build_env environ c) wd of
        Inl e \<Rightarrow> Inl (except_not_found e)
      | Inr ch \<Rightarrow>
          if interactive
          then Inr \<lparr>returncode = exit_code ch, stdout = None, stderr = None\<rparr>
          else
            (case locale_decode H (out ch) of
               None \<Rightarrow> Inl UnicodeDecodeError
             | Some out_text \<Rightarrow>
                 (case locale_decode H (err ch) of
                    None \<Rightarrow> Inl UnicodeDecodeError
                  | Some err_text \<Rightarrow>
                      Inr \<lparr>returncode = exit_code ch,
                           stdout = Some (universal_newlines out_text),
                           stderr = Some (universal_newlines err_text)\<rparr>)))"
  by (intro conjI) (rule build_env_lookup, rule run_launch)

end
